theory Spec2Isabelle
  imports Main "HOL-Library.Sublist"
begin

section \<open>Cluster defaulting: upup/pkg/fi/cloudup/defaults.go\<close>

text \<open>
  A shallow embedding of \<^verbatim>\<open>PerformAssignments\<close>, \<^verbatim>\<open>ensureKubernetesVersion\<close>,
  \<^verbatim>\<open>FindLatestKubernetesVersion\<close> and \<^verbatim>\<open>assignProxy\<close>. The Go functions mutate a
  \<^verbatim>\<open>*kops.Cluster\<close> in place and return an \<^verbatim>\<open>error\<close>; the model passes the cluster
  through and returns the error (if any), the cluster as the call leaves it, and the
  sequence of collaborator calls and log lines the call produced.
\<close>

subsection \<open>Go's \<^verbatim>\<open>strings\<close> functions used by the source\<close>

text \<open>
  Go strings are byte sequences, and so is \<^typ>\<open>string\<close>. \<^verbatim>\<open>strings.Split(s, sep)\<close> is
  modelled for a one-byte separator, which is the only use in the source (\<^verbatim>\<open>","\<close>):
  it returns the fields between the separators, one more field than there are
  separators, so \<^verbatim>\<open>Split("", ",")\<close> is \<^verbatim>\<open>[""]\<close>.
\<close>

fun Split :: "string \<Rightarrow> char \<Rightarrow> string list" where
  "Split [] sep = [[]]"
| "Split (x # xs) sep =
     (if x = sep then [] # Split xs sep
      else (case Split xs sep of
              [] \<Rightarrow> [[x]]
            | w # ws \<Rightarrow> (x # w) # ws))"

text \<open>\<^verbatim>\<open>strings.Join(elems, sep)\<close>: the elements with \<^verbatim>\<open>sep\<close> between neighbours.\<close>

fun Join :: "string list \<Rightarrow> string \<Rightarrow> string" where
  "Join [] sep = []"
| "Join [a] sep = a"
| "Join (a # b # rest) sep = a @ sep @ Join (b # rest) sep"

text \<open>\<^verbatim>\<open>strings.Contains(s, substr)\<close>: \<^verbatim>\<open>substr\<close> occurs in \<^verbatim>\<open>s\<close> as a contiguous run of bytes.\<close>

fun Contains :: "string \<Rightarrow> string \<Rightarrow> bool" where
  "Contains [] substr = (substr = [])"
| "Contains (x # xs) substr = (prefix substr (x # xs) \<or> Contains xs substr)"

subsection \<open>Data model\<close>

text \<open>
  The types of package \<^verbatim>\<open>kops\<close> are declared outside the file; the records hold the
  fields the file reads or writes. \<^verbatim>\<open>kops.TopologyPublic\<close> is one of the two placement
  modes.
\<close>

datatype TopologyMode = TopologyPublic | TopologyPrivate

record TopologySpec =
  Masters :: TopologyMode
  Nodes :: TopologyMode

record EgressProxySpec =
  ProxyExcludes :: string

record VPCInfo =
  CIDR :: string

text \<open>
  \<^verbatim>\<open>kops.Cluster\<close>: \<^verbatim>\<open>Name\<close> is \<^verbatim>\<open>c.ObjectMeta.Name\<close>, the other fields are those of
  \<^verbatim>\<open>c.Spec\<close>; a nil pointer is \<^term>\<open>None\<close>. The method \<^verbatim>\<open>c.SharedVPC()\<close> is declared
  outside the file: it is taken as a property of the cluster that the file only reads.
  Whatever else a cluster holds (its subnets, for one) is the record's extension slot,
  which the functions of this file never touch.
\<close>

record Cluster =
  Name :: string
  NetworkID :: string
  NetworkCIDR :: string
  NonMasqueradeCIDR :: string
  Topology :: "TopologySpec option"
  MasterPublicName :: string
  KubernetesVersion :: string
  Channel :: string
  EgressProxy :: "EgressProxySpec option"
  ClusterDNSDomain :: string
  SharedVPC :: bool

subsection \<open>Errors, collaborators and the trace\<close>

text \<open>
  An error is either one that a collaborator returned (opaque to this file, and passed
  on as it is) or one of the three that the file builds with \<^verbatim>\<open>fmt.Errorf\<close>:
  \<^item> \<open>VPCNotFound id\<close>: \<^verbatim>\<open>"unable to find VPC ID %q"\<close> with the network ID;
  \<^item> \<open>NetworkCIDRMissing\<close>:
    \<^verbatim>\<open>"Unable to infer NetworkCIDR from VPC ID, please specify --network-cidr"\<close>;
  \<^item> \<open>LatestVersionUnavailable url err\<close>:
    \<^verbatim>\<open>"KubernetesVersion not specified, and unable to download latest version from %q: %v"\<close>.
\<close>

datatype error =
    Collaborator string
  | VPCNotFound string
  | NetworkCIDRMissing
  | LatestVersionUnavailable string error

datatype level = InfoLevel | WarningLevel | VerboseLevel nat

text \<open>
  What a call does besides changing the cluster: the calls to collaborators, in order,
  and the \<^verbatim>\<open>glog\<close> lines (level, format string, arguments).
\<close>

datatype event =
    CallBuildCloud
  | CallFindVPCInfo string
  | CallAssignCIDRsToSubnets
  | CallLoadChannel string
  | CallReadFile string
  | Log level string "string list"

text \<open>The \<^verbatim>\<open>fi.Cloud\<close> value built by \<^verbatim>\<open>BuildCloud\<close>; the file calls one method of it.\<close>

record Cloud =
  FindVPCInfo :: "string \<Rightarrow> error + VPCInfo option"

text \<open>
  The functions and constants the file uses and does not define. \<^verbatim>\<open>assignCIDRsToSubnets\<close>
  receives the cluster pointer, so it returns the cluster as it leaves it together with
  its error. A channel descriptor is opaque (\<^typ>\<open>'ch\<close>); \<^verbatim>\<open>RecommendedKubernetesVersion\<close>
  gives the \<^verbatim>\<open>String()\<close> of the version it recommends, or \<^term>\<open>None\<close> for nil.
  \<^verbatim>\<open>Version\<close> is \<^verbatim>\<open>kopsversion.Version\<close>, \<^verbatim>\<open>ReadFile\<close> is \<^verbatim>\<open>vfs.Context.ReadFile\<close>, and
  \<^verbatim>\<open>TrimSpace\<close> is \<^verbatim>\<open>strings.TrimSpace\<close>.
\<close>

record ('a, 'ch) env =
  BuildCloud :: "'a Cluster_scheme \<Rightarrow> error + Cloud"
  assignCIDRsToSubnets :: "'a Cluster_scheme \<Rightarrow> error option \<times> 'a Cluster_scheme"
  LoadChannel :: "string \<Rightarrow> error + 'ch"
  RecommendedKubernetesVersion :: "'ch \<Rightarrow> string \<Rightarrow> string option"
  Version :: string
  ReadFile :: "string \<Rightarrow> error + string"
  TrimSpace :: "string \<Rightarrow> string"

subsection \<open>\<^verbatim>\<open>assignProxy\<close>\<close>

text \<open>
  The loop of \<^verbatim>\<open>assignProxy\<close> over the candidates: \<open>orig\<close> is
  \<^verbatim>\<open>egressProxy.ProxyExcludes\<close>, which the loop reads and does not write.
\<close>

fun appendExcludes :: "string \<Rightarrow> string list \<Rightarrow> string list \<Rightarrow> string list" where
  "appendExcludes orig [] egressSlice = egressSlice"
| "appendExcludes orig (exclude # rest) egressSlice =
     (if exclude = [] then appendExcludes orig rest egressSlice
      else if \<not> Contains orig exclude then appendExcludes orig rest (egressSlice @ [exclude])
      else appendExcludes orig rest egressSlice)"

definition basicList :: "'a Cluster_scheme \<Rightarrow> string list" where
  "basicList cluster =
     [''127.0.0.1'',
      ''localhost'',
      ''169.254.169.254'',
      ClusterDNSDomain cluster,
      MasterPublicName cluster,
      Name cluster,
      ''100.64.0.1'',
      NonMasqueradeCIDR cluster]"

definition assignProxy :: "'a Cluster_scheme \<Rightarrow> EgressProxySpec option \<times> event list" where
  "assignProxy cluster =
     (case EgressProxy cluster of
        Some egressProxy \<Rightarrow>
          (let egressSlice0 =
                 (if ProxyExcludes egressProxy \<noteq> [] then Split (ProxyExcludes egressProxy) CHR '',''
                  else []);
               egressSlice = appendExcludes (ProxyExcludes egressProxy) (basicList cluster) egressSlice0;
               egressProxy' = egressProxy\<lparr>ProxyExcludes := Join egressSlice '',''\<rparr>
           in (Some egressProxy',
               [Log (VerboseLevel 4) ''Completed setting up Proxy Excludes: %q''
                  [ProxyExcludes egressProxy']]))
      | None \<Rightarrow> (None, [Log (VerboseLevel 4) ''Not setting up Proxy Excludes'' []]))"

subsection \<open>\<^verbatim>\<open>FindLatestKubernetesVersion\<close> and \<^verbatim>\<open>ensureKubernetesVersion\<close>\<close>

definition stableURL :: string where
  "stableURL = ''https://storage.googleapis.com/kubernetes-release/release/stable.txt''"

definition FindLatestKubernetesVersion :: "('a, 'ch) env \<Rightarrow> (error + string) \<times> event list" where
  "FindLatestKubernetesVersion env =
     (let evs = [Log WarningLevel ''Loading latest kubernetes version from %q'' [stableURL],
                 CallReadFile stableURL]
      in case ReadFile env stableURL of
           Inl err \<Rightarrow> (Inl (LatestVersionUnavailable stableURL err), evs)
         | Inr b \<Rightarrow> (Inr (TrimSpace env b), evs))"

text \<open>
  The first \<^verbatim>\<open>if\<close> of \<^verbatim>\<open>ensureKubernetesVersion\<close> (lines 92 to 108), the channel step.
\<close>

definition channelStep ::
  "('a, 'ch) env \<Rightarrow> 'a Cluster_scheme \<Rightarrow> error option \<times> 'a Cluster_scheme \<times> event list" where
  "channelStep env c =
     (if KubernetesVersion c = [] then
        (if Channel c \<noteq> [] then
           (case LoadChannel env (Channel c) of
              Inl err \<Rightarrow> (Some err, c, [CallLoadChannel (Channel c)])
            | Inr channel \<Rightarrow>
                (case RecommendedKubernetesVersion env channel (Version env) of
                   Some kubernetesVersion \<Rightarrow>
                     (None, c\<lparr>KubernetesVersion := kubernetesVersion\<rparr>,
                      [CallLoadChannel (Channel c),
                       Log InfoLevel ''Using KubernetesVersion %q from channel %q''
                         [kubernetesVersion, Channel c]])
                 | None \<Rightarrow>
                     (None, c,
                      [CallLoadChannel (Channel c),
                       Log WarningLevel
                         ''Cannot determine recommended kubernetes version from channel %q''
                         [Channel c]])))
         else
           (None, c,
            [Log WarningLevel
               ''Channel is not set; cannot determine KubernetesVersion from channel'' []]))
      else (None, c, []))"

text \<open>The second \<^verbatim>\<open>if\<close> (lines 110 to 118), the fallback to the latest stable version.\<close>

definition latestStep ::
  "('a, 'ch) env \<Rightarrow> 'a Cluster_scheme \<Rightarrow> error option \<times> 'a Cluster_scheme \<times> event list" where
  "latestStep env c =
     (if KubernetesVersion c = [] then
        (case FindLatestKubernetesVersion env of
           (Inl err, evs) \<Rightarrow> (Some err, c, evs)
         | (Inr latestVersion, evs) \<Rightarrow>
             (None, c\<lparr>KubernetesVersion := latestVersion\<rparr>,
              evs @ [Log InfoLevel ''Using kubernetes latest stable version: %s'' [latestVersion]]))
      else (None, c, []))"

definition ensureKubernetesVersion ::
  "('a, 'ch) env \<Rightarrow> 'a Cluster_scheme \<Rightarrow> error option \<times> 'a Cluster_scheme \<times> event list" where
  "ensureKubernetesVersion env c =
     (case channelStep env c of
        (Some err, c', evs) \<Rightarrow> (Some err, c', evs)
      | (None, c', evs) \<Rightarrow>
          (case latestStep env c' of
             (err, c'', evs') \<Rightarrow> (err, c'', evs @ evs')))"

subsection \<open>\<^verbatim>\<open>PerformAssignments\<close>\<close>

text \<open>Lines 44 to 56: the CIDR of a shared network is looked up in the cloud.\<close>

definition sharedVPCStep ::
  "Cloud \<Rightarrow> 'a Cluster_scheme \<Rightarrow> error option \<times> 'a Cluster_scheme \<times> event list" where
  "sharedVPCStep cloud c =
     (if SharedVPC c \<and> NetworkCIDR c = [] then
        (case FindVPCInfo cloud (NetworkID c) of
           Inl err \<Rightarrow> (Some err, c, [CallFindVPCInfo (NetworkID c)])
         | Inr None \<Rightarrow> (Some (VPCNotFound (NetworkID c)), c, [CallFindVPCInfo (NetworkID c)])
         | Inr (Some vpcInfo) \<Rightarrow>
             (let c' = c\<lparr>NetworkCIDR := CIDR vpcInfo\<rparr>
              in if NetworkCIDR c' = [] then
                   (Some NetworkCIDRMissing, c', [CallFindVPCInfo (NetworkID c)])
                 else (None, c', [CallFindVPCInfo (NetworkID c)])))
      else (None, c, []))"

text \<open>Lines 60 to 76: the four defaults, which call nothing and cannot fail.\<close>

definition assignDefaults :: "'a Cluster_scheme \<Rightarrow> 'a Cluster_scheme" where
  "assignDefaults c =
     (let c1 = (if Topology c = None
                then c\<lparr>Topology := Some \<lparr>Masters = TopologyPublic, Nodes = TopologyPublic\<rparr>\<rparr>
                else c);
          c2 = (if NetworkCIDR c1 = [] \<and> \<not> SharedVPC c1
                then c1\<lparr>NetworkCIDR := ''172.20.0.0/16''\<rparr> else c1);
          c3 = (if NonMasqueradeCIDR c2 = []
                then c2\<lparr>NonMasqueradeCIDR := ''100.64.0.0/10''\<rparr> else c2);
          c4 = (if MasterPublicName c3 = [] \<and> Name c3 \<noteq> []
                then c3\<lparr>MasterPublicName := ''api.'' @ Name c3\<rparr> else c3)
      in c4)"

definition PerformAssignments ::
  "('a, 'ch) env \<Rightarrow> 'a Cluster_scheme \<Rightarrow> error option \<times> 'a Cluster_scheme \<times> event list" where
  "PerformAssignments env c =
     (case BuildCloud env c of
        Inl err \<Rightarrow> (Some err, c, [CallBuildCloud])
      | Inr cloud \<Rightarrow>
          (case sharedVPCStep cloud c of
             (Some err, c0, evs0) \<Rightarrow> (Some err, c0, CallBuildCloud # evs0)
           | (None, c0, evs0) \<Rightarrow>
               (case assignCIDRsToSubnets env (assignDefaults c0) of
                  (Some err, c2) \<Rightarrow>
                    (Some err, c2, CallBuildCloud # evs0 @ [CallAssignCIDRsToSubnets])
                | (None, c2) \<Rightarrow>
                    (case assignProxy c2 of
                       (egressProxy, evs3) \<Rightarrow>
                         (case ensureKubernetesVersion env (c2\<lparr>EgressProxy := egressProxy\<rparr>) of
                            (err, c4, evs4) \<Rightarrow>
                              (err, c4,
                               CallBuildCloud # evs0 @ [CallAssignCIDRsToSubnets] @ evs3 @ evs4))))))"

subsection \<open>Example clusters and collaborators\<close>

text \<open>A cluster on a network of its own, and collaborators among which no cloud can be built.\<close>

definition privateCluster :: Cluster where
  "privateCluster =
     \<lparr>Name = ''prod.example.com'', NetworkID = [], NetworkCIDR = [], NonMasqueradeCIDR = [],
      Topology = None, MasterPublicName = [], KubernetesVersion = [], Channel = ''stable'',
      EgressProxy = None, ClusterDNSDomain = ''cluster.local'', SharedVPC = False\<rparr>"

definition noCloudEnv :: "(unit, string) env" where
  "noCloudEnv =
     \<lparr>BuildCloud = (\<lambda>c. Inl (Collaborator ''unknown CloudProvider'')),
      assignCIDRsToSubnets = (\<lambda>c. (None, c)),
      LoadChannel = (\<lambda>n. Inl (Collaborator ''channel not found'')),
      RecommendedKubernetesVersion = (\<lambda>ch v. None),
      Version = ''1.5.0'',
      ReadFile = (\<lambda>u. Inl (Collaborator ''unreachable'')),
      TrimSpace = (\<lambda>s. s)\<rparr>"

section \<open>Properties\<close>

subsection \<open>The cloud is built first\<close>

text \<open>
  C10. \<^verbatim>\<open>PerformAssignments\<close> builds the cloud before anything else. When that fails, the
  error is returned as it is, the cluster is exactly the one passed in, and nothing but
  \<^verbatim>\<open>BuildCloud\<close> has been called. Nothing is asked of the cluster, so this also happens
  to a cluster that shares no network and would need no cloud lookup.
\<close>

theorem BuildCloud_failure:
  assumes "BuildCloud env c = Inl err"
  shows "PerformAssignments env c = (Some err, c, [CallBuildCloud])"
  using assms by (simp add: PerformAssignments_def)

theorem BuildCloud_failure_witness:
  "\<not> SharedVPC privateCluster \<and>
   BuildCloud noCloudEnv privateCluster = Inl (Collaborator ''unknown CloudProvider'') \<and>
   PerformAssignments noCloudEnv privateCluster =
     (Some (Collaborator ''unknown CloudProvider''), privateCluster, [CallBuildCloud])"
proof -
  have h: "BuildCloud noCloudEnv privateCluster = Inl (Collaborator ''unknown CloudProvider'')"
    by (simp add: noCloudEnv_def)
  show ?thesis using h BuildCloud_failure [OF h] by (simp add: privateCluster_def)
qed

end
